theory Spec2Isabelle
  imports Complex_Main "HOL-Library.Stream"
begin

section \<open>Python values used by the two probes\<close>

text \<open>
  Both probes are single-pass Python scripts: they query a service, compare what it
  reports with thresholds, print one line and leave with a status code. An exception is
  a value of \<open>exn\<close>; a function that may raise returns \<open>exn + 'a\<close> with \<open>Inl\<close> for the
  exception. The constructors that carry \<open>args\<close> are the exception classes whose
  \<open>ex.args\<close> the scripts print, each argument already rendered as text.
\<close>

datatype exn =
    ServerSelectionTimeoutError "string list"
  | OperationFailure "string list"
  | ReplicaUnhealthy "string list"
  | RedisError "string list"
  | ValueError
  | IndexError

text \<open>
  What a run of a script leaves behind: the lines written by \<open>print\<close> together with the
  argument of \<open>sys.exit\<close>, or an exception that no \<open>except\<close> clause caught (the
  interpreter then writes a traceback to stderr and nothing to stdout).
\<close>

datatype outcome = Exit "string list" int | Uncaught exn

text \<open>The \<open>STATUS\<close> dictionary, the same in both scripts.\<close>

datatype status_key = OK | CRITICAL

fun STATUS :: "status_key \<Rightarrow> int" where
  "STATUS OK = 0"
| "STATUS CRITICAL = 2"

text \<open>\<open>print(*ex.args)\<close> writes the arguments separated by single spaces.\<close>

fun print_args :: "string list \<Rightarrow> string" where
  "print_args [] = []"
| "print_args [a] = a"
| "print_args (a # b # rest) = a @ '' '' @ print_args (b # rest)"

section \<open>The replica probe: \<open>check_mongolu_monitor.py\<close>\<close>

definition PRIMARY_INSTANCE :: int where
  "PRIMARY_INSTANCE = 1"

definition SECONDARY_INSTANCE :: int where
  "SECONDARY_INSTANCE = 2"

text \<open>
  A connection is the sequence of answers the server gives to successive
  \<open>replSetGetStatus\<close> commands: the \<open>myState\<close> integer, or the exception the driver
  raises. \<open>get_instance_status\<close> issues the command once, so it reads the head.
\<close>

type_synonym connection = "(exn + int) stream"

definition get_instance_status :: "connection \<Rightarrow> exn + int" where
  "get_instance_status connection = shd connection"

text \<open>
  \<open>MongoClient\<close> is the driver: from the credentials to the connection.
\<close>

definition report_instance_status ::
    "(string \<Rightarrow> string \<Rightarrow> connection) \<Rightarrow> string \<Rightarrow> string \<Rightarrow> exn + string" where
  "report_instance_status MongoClient user password =
     (let connection = MongoClient user password;
          message = ''|replica_health=1;;0;;''
      in case get_instance_status connection of
           Inl ex \<Rightarrow> Inl ex
         | Inr instance_status \<Rightarrow>
             if instance_status = PRIMARY_INSTANCE then
               Inr (''Ok - Replica Primary'' @ message)
             else if instance_status = SECONDARY_INSTANCE then
               Inr (''Ok - Replica Secondary'' @ message)
             else
               Inl (ReplicaUnhealthy [''Critical - Replica NOK!'' @ message]))"

text \<open>
  \<open>main\<close> of the replica probe, after \<open>argparse\<close> has delivered \<open>user\<close> and \<open>password\<close>.
  \<open>sys.exit\<close> inside the \<open>try\<close> raises \<open>SystemExit\<close>, which none of the three handlers
  catches.
\<close>

definition main_mongolu ::
    "(string \<Rightarrow> string \<Rightarrow> connection) \<Rightarrow> string \<Rightarrow> string \<Rightarrow> outcome" where
  "main_mongolu MongoClient user password =
     (case report_instance_status MongoClient user password of
        Inr message \<Rightarrow> Exit [message] (STATUS OK)
      | Inl ex \<Rightarrow>
          (case ex of
             ServerSelectionTimeoutError args \<Rightarrow> Exit [print_args args] (STATUS CRITICAL)
           | OperationFailure args \<Rightarrow> Exit [print_args args] (STATUS CRITICAL)
           | ReplicaUnhealthy args \<Rightarrow> Exit [print_args args] (STATUS CRITICAL)
           | _ \<Rightarrow> Uncaught ex))"

section \<open>Python strings, lists and floats\<close>

text \<open>
  A Python \<open>str\<close> is a \<open>string\<close>; every text the probes handle is ASCII. A slice
  \<open>xs[lo:hi]\<close> never raises: a negative bound counts from the end and every bound is
  clamped to the length.
\<close>

definition slice_index :: "nat \<Rightarrow> int \<Rightarrow> nat" where
  "slice_index n i = (if i < 0 then nat (int n + i) else min n (nat i))"

definition py_slice :: "'a list \<Rightarrow> int \<Rightarrow> int \<Rightarrow> 'a list" where
  "py_slice xs lo hi =
     (let n = length xs; a = slice_index n lo; b = slice_index n hi
      in take (b - a) (drop a xs))"

text \<open>
  \<open>s.split(sep)\<close> with a one-character separator cuts at every occurrence of the
  separator and keeps the empty pieces, so the empty string splits into one empty piece.
\<close>

fun py_split :: "char \<Rightarrow> string \<Rightarrow> string list" where
  "py_split sep [] = [[]]"
| "py_split sep (c # cs) =
     (if c = sep then [] # py_split sep cs
      else (case py_split sep cs of
              [] \<Rightarrow> [[c]]
            | piece # pieces \<Rightarrow> (c # piece) # pieces))"

text \<open>\<open>xs[i]\<close> for an index that is not negative raises \<open>IndexError\<close> out of range.\<close>

definition py_index :: "'a list \<Rightarrow> nat \<Rightarrow> exn + 'a" where
  "py_index xs i = (if i < length xs then Inr (xs ! i) else Inl IndexError)"

text \<open>
  A Python \<open>float\<close> is a double, modelled by the rational number that is its value;
  there is no NaN and no infinity. Comparing floats, and an \<open>int\<close> with a float, is
  exact, as in the interpreter. A product is not: the interpreter rounds it to the
  nearest double, a tie going to the even significand, and it converts an \<open>int\<close> factor
  to a double in the same way first. \<open>binary64\<close> is that rounding: the exponent of the
  argument is found from the bit lengths of its numerator and denominator, it is not
  taken below the exponent of the smallest normal double, and the argument is rounded to
  a multiple of the unit in the last place of that exponent. Results of magnitude
  \<open>2 ^ 1024\<close> and more, which the interpreter turns into infinity or an
  \<open>OverflowError\<close>, are beyond the byte counts and thresholds of the probes; there the
  function continues with larger exponents.
\<close>

function bit_length :: "int \<Rightarrow> nat" where
  "bit_length n = (if n \<le> 0 then 0 else Suc (bit_length (n div 2)))"
  by pat_completeness auto
termination
  by (relation "measure nat") auto

declare bit_length.simps [simp del]

definition pow2 :: "int \<Rightarrow> rat" where
  "pow2 e = (if 0 \<le> e then 2 ^ nat e else 1 / 2 ^ nat (- e))"

definition round_half_even :: "rat \<Rightarrow> int" where
  "round_half_even a =
     (let f = \<lfloor>a\<rfloor>; r = a - of_int f
      in if r < 1 / 2 then f
         else if 1 / 2 < r then f + 1
         else if even f then f else f + 1)"

definition binary64 :: "rat \<Rightarrow> rat" where
  "binary64 x =
     (if x = 0 then 0
      else (let a = \<bar>x\<bar>;
                e0 = int (bit_length (fst (quotient_of a))) -
                     int (bit_length (snd (quotient_of a)));
                e = max (if pow2 e0 \<le> a then e0 else e0 - 1) (- 1022);
                ulp = pow2 (e - 52)
            in sgn x * of_int (round_half_even (a / ulp)) * ulp))"

text \<open>\<open>x * y\<close> on two floats, and \<open>float(n)\<close> on an \<open>int\<close>.\<close>

definition float_mul :: "rat \<Rightarrow> rat \<Rightarrow> rat" where
  "float_mul x y = binary64 (x * y)"

definition float_of_int :: "int \<Rightarrow> rat" where
  "float_of_int n = binary64 (of_int n)"

text \<open>
  The conversions between floats and text belong to the interpreter, not to the probes,
  and they are parameters of the model: \<open>float_of\<close> is \<open>float(s)\<close> with \<open>None\<close> for
  \<open>ValueError\<close>, \<open>str_of\<close> is the text an f-string puts for \<open>{x}\<close>, and \<open>format_2f\<close> is
  the text it puts for \<open>{x:.2f}\<close>. Every general theorem below holds for all three,
  whatever they are.
\<close>

record float_builtins =
  float_of :: "string \<Rightarrow> rat option"
  str_of :: "rat \<Rightarrow> string"
  format_2f :: "rat \<Rightarrow> string"

section \<open>The cache probe: \<open>check_redis_monitor.py\<close>\<close>

datatype args_key = MAX_PERCENTUAL_MEMORY_USAGE | MAX_LATENCY_MS

text \<open>
  The \<open>ARGS\<close> dictionary. The literal \<open>0.95\<close> is the double nearest to 95/100; \<open>20.0\<close>
  is a double as it stands.
\<close>

fun ARGS :: "args_key \<Rightarrow> rat" where
  "ARGS MAX_PERCENTUAL_MEMORY_USAGE = binary64 (95 / 100)"
| "ARGS MAX_LATENCY_MS = 20"

declare ARGS.simps [simp del]

text \<open>
  The four entries of the \<open>INFO\<close> dictionary that the probe reads: two byte counts and
  the two abbreviated texts the server prints for them.
\<close>

record client_information =
  used_memory :: int
  used_memory_human :: string
  maxmemory :: int
  maxmemory_human :: string

text \<open>
  The machine the probe runs on: what the server answers to successive \<open>INFO\<close>
  commands (the dictionary, or the exception the client raises), and the decoded standard
  output of successive runs of \<open>keydb-cli --latency\<close>.
\<close>

record host =
  redis_info :: "(exn + client_information) stream"
  keydb_cli_latency :: "string stream"

definition run_keydb_latency_check :: "host \<Rightarrow> string list" where
  "run_keydb_latency_check h = py_split CHR '' '' (shd (keydb_cli_latency h))"

definition format_message ::
    "float_builtins \<Rightarrow> bool \<Rightarrow> string \<Rightarrow> bool \<Rightarrow> rat \<Rightarrow> client_information \<Rightarrow> rat \<Rightarrow> string" where
  "format_message py memory_healthy max_memory_allowed_human latency_healthy max_latency
       client_information latency =
     (let used_memory_human' = used_memory_human client_information @ ''B'';
          maxmemory_human' = maxmemory_human client_information @ ''B'';
          base_massage =
            (if \<not> memory_healthy then ''high'' else []) @ '' memory usage: '' @
            used_memory_human' @ '' used of '' @ maxmemory_human' @ '' '' @
            ''/ '' @ (if \<not> latency_healthy then ''high'' else []) @
            '' average latency: '' @ str_of py latency @ '' ms''
      in base_massage @ ''|used_memory='' @ used_memory_human' @ '';;'' @
         max_memory_allowed_human @ '';; average_latency='' @ str_of py latency @
         '';;'' @ str_of py max_latency @ '';;'')"

definition get_memory_threshold_by_percentage :: "rat \<Rightarrow> client_information \<Rightarrow> rat" where
  "get_memory_threshold_by_percentage max_memory_usage client_information =
     (let max_memory_allowed =
            float_mul max_memory_usage (float_of_int (maxmemory client_information))
      in max_memory_allowed)"

definition get_human_memory_threshold_by_percentage ::
    "float_builtins \<Rightarrow> rat \<Rightarrow> client_information \<Rightarrow> exn + string" where
  "get_human_memory_threshold_by_percentage py max_memory_usage client_information =
     (let maxmemory_memory_human = maxmemory_human client_information;
          size_maxmemory_memory_human = int (length maxmemory_memory_human)
      in case float_of py
                (py_slice maxmemory_memory_human 0 (size_maxmemory_memory_human - 1)) of
           None \<Rightarrow> Inl ValueError
         | Some maxmemory_memory_human_value \<Rightarrow>
             (let max_memory_to_alarm =
                    float_mul maxmemory_memory_human_value max_memory_usage;
                  max_memory_unit_byte =
                    py_slice maxmemory_memory_human (- 1) size_maxmemory_memory_human
              in Inr (format_2f py max_memory_to_alarm @ max_memory_unit_byte @ ''B'')))"

definition check_memory_usage ::
    "float_builtins \<Rightarrow> client_information \<Rightarrow> rat \<Rightarrow> exn + bool \<times> string" where
  "check_memory_usage py client_information max_memory_usage =
     (let max_memory_allowed =
            get_memory_threshold_by_percentage max_memory_usage client_information
      in case get_human_memory_threshold_by_percentage py max_memory_usage
                client_information of
           Inl ex \<Rightarrow> Inl ex
         | Inr max_memory_allowed_human \<Rightarrow>
             Inr (if of_int (used_memory client_information) > max_memory_allowed
                  then False else True,
                  max_memory_allowed_human))"

definition check_latency :: "float_builtins \<Rightarrow> host \<Rightarrow> rat \<Rightarrow> exn + bool \<times> rat" where
  "check_latency py h max_latency =
     (let results = run_keydb_latency_check h
      in case py_index results 2 of
           Inl ex \<Rightarrow> Inl ex
         | Inr field \<Rightarrow>
             (case float_of py field of
                None \<Rightarrow> Inl ValueError
              | Some average_latency \<Rightarrow>
                  if average_latency > max_latency then Inr (False, average_latency)
                  else Inr (True, average_latency)))"

text \<open>
  \<open>argparse\<close> hands over \<open>None\<close> for a flag that was not given and the parsed float
  otherwise. \<open>not v\<close> is true for \<open>None\<close> and for zero, and \<open>report_stats\<close> replaces
  such a threshold by the entry of \<open>ARGS\<close>; the same two lines serve both thresholds.
\<close>

definition threshold_or_default :: "rat option \<Rightarrow> rat \<Rightarrow> rat" where
  "threshold_or_default v default_value =
     (case v of
        None \<Rightarrow> default_value
      | Some x \<Rightarrow> if x = 0 then default_value else x)"

definition report_stats ::
    "float_builtins \<Rightarrow> host \<Rightarrow> rat option \<Rightarrow> rat option \<Rightarrow> exn + string" where
  "report_stats py h max_latency max_memory_usage =
     (case shd (redis_info h) of
        Inl ex \<Rightarrow> Inl ex
      | Inr client_information \<Rightarrow>
          (let max_memory_usage' =
                 threshold_or_default max_memory_usage (ARGS MAX_PERCENTUAL_MEMORY_USAGE);
               max_latency' = threshold_or_default max_latency (ARGS MAX_LATENCY_MS)
           in case check_memory_usage py client_information max_memory_usage' of
                Inl ex \<Rightarrow> Inl ex
              | Inr (memory_healthy, max_memory_allowed_human) \<Rightarrow>
                  (case check_latency py h max_latency' of
                     Inl ex \<Rightarrow> Inl ex
                   | Inr (latency_healthy, latency) \<Rightarrow>
                       (let message =
                              format_message py memory_healthy max_memory_allowed_human
                                latency_healthy max_latency' client_information latency
                        in if \<not> memory_healthy \<or> \<not> latency_healthy
                           then Inl (RedisError [message])
                           else Inr message))))"

text \<open>
  \<open>main\<close> of the cache probe, after \<open>argparse\<close> has delivered the two optional
  thresholds. Its only handler is for \<open>redis.RedisError\<close>.
\<close>

definition main_redis ::
    "float_builtins \<Rightarrow> host \<Rightarrow> rat option \<Rightarrow> rat option \<Rightarrow> outcome" where
  "main_redis py h max_latency max_memory_usage =
     (case report_stats py h max_latency max_memory_usage of
        Inr message \<Rightarrow> Exit [message] (STATUS OK)
      | Inl ex \<Rightarrow>
          (case ex of
             RedisError args \<Rightarrow> Exit [print_args args] (STATUS CRITICAL)
           | _ \<Rightarrow> Uncaught ex))"

section \<open>Reference conversions between floats and text\<close>

text \<open>
  One instance of \<open>float_builtins\<close>, used to run the probes on concrete inputs. Its
  conversions are exact: \<open>decimal_float\<close> reads a plain decimal literal (surrounding
  white space, an optional sign, digits with an optional point) as the number it
  denotes and rejects every other text, \<open>decimal_str\<close> writes all decimals of its
  argument, at least one and at most seventeen, and \<open>decimal_format_2f\<close> rounds its
  argument to two decimals, a tie going to the even digit, as the interpreter does with
  the value of a double. On the literals used below, which have a few digits, the
  interpreter prints the same texts.
\<close>

definition is_space :: "char \<Rightarrow> bool" where
  "is_space c = (c \<in> set [CHR '' '', CHR 0x09, CHR 0x0A, CHR 0x0B, CHR 0x0C, CHR 0x0D,
                          CHR 0x1C, CHR 0x1D, CHR 0x1E, CHR 0x1F])"

definition digit_of_char :: "char \<Rightarrow> nat option" where
  "digit_of_char c =
     map_of [(CHR ''0'', 0), (CHR ''1'', 1), (CHR ''2'', 2), (CHR ''3'', 3), (CHR ''4'', 4),
             (CHR ''5'', 5), (CHR ''6'', 6), (CHR ''7'', 7), (CHR ''8'', 8), (CHR ''9'', 9)] c"

definition digit_char :: "int \<Rightarrow> char" where
  "digit_char d = ''0123456789'' ! nat (d mod 10)"

fun int_of_digits :: "int \<Rightarrow> string \<Rightarrow> int option" where
  "int_of_digits acc [] = Some acc"
| "int_of_digits acc (c # cs) =
     (case digit_of_char c of
        None \<Rightarrow> None
      | Some d \<Rightarrow> int_of_digits (10 * acc + int d) cs)"

definition strip :: "string \<Rightarrow> string" where
  "strip s = rev (dropWhile is_space (rev (dropWhile is_space s)))"

definition decimal_float :: "string \<Rightarrow> rat option" where
  "decimal_float s =
     (let t = strip s;
          negative = (case t of [] \<Rightarrow> False | c # _ \<Rightarrow> c = CHR ''-'');
          signed = (case t of [] \<Rightarrow> False | c # _ \<Rightarrow> c = CHR ''-'' \<or> c = CHR ''+'');
          body = (if signed then tl t else t);
          whole = takeWhile (\<lambda>c. c \<noteq> CHR ''.'') body;
          part = drop (length whole + 1) body
      in if whole = [] \<and> part = [] then None
         else (case (int_of_digits 0 whole, int_of_digits 0 part) of
                 (Some i, Some f) \<Rightarrow>
                   Some ((if negative then - 1 else 1) *
                         (of_int i + of_int f / 10 ^ length part))
               | _ \<Rightarrow> None))"

function str_int :: "int \<Rightarrow> string" where
  "str_int n = (if n < 10 then [digit_char n] else str_int (n div 10) @ [digit_char (n mod 10)])"
  by pat_completeness auto
termination
  by (relation "measure nat") auto

declare str_int.simps [simp del]

fun fraction_digits :: "nat \<Rightarrow> rat \<Rightarrow> string" where
  "fraction_digits 0 f = []"
| "fraction_digits (Suc k) f =
     (if f = 0 then []
      else (let d = \<lfloor>f * 10\<rfloor>
            in digit_char d # fraction_digits k (f * 10 - of_int d)))"

definition decimal_str :: "rat \<Rightarrow> string" where
  "decimal_str x =
     (let a = \<bar>x\<bar>; i = \<lfloor>a\<rfloor>; ds = fraction_digits 17 (a - of_int i)
      in (if x < 0 then ''-'' else []) @ str_int i @ ''.'' @ (if ds = [] then ''0'' else ds))"

definition decimal_format_2f :: "rat \<Rightarrow> string" where
  "decimal_format_2f x =
     (let q = round_half_even (\<bar>x\<bar> * 100)
      in (if x < 0 then ''-'' else []) @ str_int (q div 100) @ ''.'' @
         [digit_char (q div 10), digit_char q])"

definition decimal :: float_builtins where
  "decimal = \<lparr>float_of = decimal_float, str_of = decimal_str, format_2f = decimal_format_2f\<rparr>"


section \<open>Two notions in the words of the specification\<close>

text \<open>
  The specification speaks of the white-space-delimited tokens of the latency tool's
  output and of the unit suffix of a human-readable memory value. Neither is a function
  of the probes; both are defined here from those words, to be compared with what the
  code does. The tokens of a text are its maximal runs of characters that are not white
  space (what \<open>s.split()\<close> without a separator returns); the unit suffix of a value is
  what follows its last digit.
\<close>

function spec_whitespace_tokens :: "string \<Rightarrow> string list" where
  "spec_whitespace_tokens [] = []"
| "spec_whitespace_tokens (c # cs) =
     (if is_space c then spec_whitespace_tokens cs
      else (c # takeWhile (\<lambda>x. \<not> is_space x) cs) #
           spec_whitespace_tokens (dropWhile (\<lambda>x. \<not> is_space x) cs))"
  by pat_completeness auto
termination
  by (relation "measure length") (auto simp: less_Suc_eq_le length_dropWhile_le)

definition spec_unit_suffix :: "string \<Rightarrow> string" where
  "spec_unit_suffix s = rev (takeWhile (\<lambda>c. digit_of_char c = None) (rev s))"

section \<open>The scenario of the specification\<close>

text \<open>
  The server of the end-to-end scenarios: 6.02M used of a maximum of 3.59G. A scenario
  host answers every \<open>INFO\<close> with the given dictionary, and its latency tool prints the
  given text at every run.
\<close>

definition scenario_info :: client_information where
  "scenario_info =
     \<lparr>used_memory = 6312427, used_memory_human = ''6.02M'',
      maxmemory = 3854732148, maxmemory_human = ''3.59G''\<rparr>"

definition scenario_host :: "client_information \<Rightarrow> string \<Rightarrow> host" where
  "scenario_host info out =
     \<lparr>redis_info = sconst (Inr info), keydb_cli_latency = sconst out\<rparr>"

section \<open>The replica probe: verdict and output\<close>

lemma report_instance_status_reply:
  "report_instance_status MongoClient user password =
     (case shd (MongoClient user password) of
        Inl ex \<Rightarrow> Inl ex
      | Inr s \<Rightarrow>
          if s = 1 then Inr ''Ok - Replica Primary|replica_health=1;;0;;''
          else if s = 2 then Inr ''Ok - Replica Secondary|replica_health=1;;0;;''
          else Inl (ReplicaUnhealthy [''Critical - Replica NOK!|replica_health=1;;0;;'']))"
  by (simp add: report_instance_status_def get_instance_status_def
      PRIMARY_INSTANCE_def SECONDARY_INSTANCE_def split: sum.splits)

text \<open>
  C1. Whatever integer the server reports as its replication state: state 1 gives the
  healthy message with the role label Primary, state 2 the healthy message with the
  role label Secondary, and every other integer raises \<open>ReplicaUnhealthy\<close>. No state of
  1 or 2 raises it, so the last branch is the only one in which the evaluation itself
  signals a failure.
\<close>

theorem replication_verdict:
  "shd (MongoClient user password) = Inr s \<Longrightarrow>
     (s = 1 \<longrightarrow> report_instance_status MongoClient user password
                = Inr ''Ok - Replica Primary|replica_health=1;;0;;'') \<and>
     (s = 2 \<longrightarrow> report_instance_status MongoClient user password
                = Inr ''Ok - Replica Secondary|replica_health=1;;0;;'') \<and>
     (s \<noteq> 1 \<and> s \<noteq> 2 \<longrightarrow> report_instance_status MongoClient user password
                = Inl (ReplicaUnhealthy [''Critical - Replica NOK!|replica_health=1;;0;;''])) \<and>
     ((\<exists>ex. report_instance_status MongoClient user password = Inl ex) \<longleftrightarrow> s \<noteq> 1 \<and> s \<noteq> 2)"
  by (simp add: report_instance_status_reply)

theorem replication_verdict_witness:
  "report_instance_status (\<lambda>u p. sconst (Inr 7)) ''root'' ''pw''
     = Inl (ReplicaUnhealthy [''Critical - Replica NOK!|replica_health=1;;0;;'']) \<and>
   report_instance_status (\<lambda>u p. sconst (Inr 2)) ''root'' ''pw''
     = Inr ''Ok - Replica Secondary|replica_health=1;;0;;''"
  using replication_verdict [of "\<lambda>u p. sconst (Inr 7)" "''root''" "''pw''" 7]
        replication_verdict [of "\<lambda>u p. sconst (Inr 2)" "''root''" "''pw''" 2]
  by simp

text \<open>
  C5. A run in which the server reports state 1 prints exactly the line
  \<open>Ok - Replica Primary|replica_health=1;;0;;\<close> and exits with 0. A run in which it
  reports a state other than 1 and 2 prints one line that starts with
  \<open>Critical - Replica NOK!\<close> and exits with 2.
\<close>

theorem replica_probe_run:
  "shd (MongoClient user password) = Inr s \<Longrightarrow>
     (s = 1 \<longrightarrow> main_mongolu MongoClient user password
                = Exit [''Ok - Replica Primary|replica_health=1;;0;;''] 0) \<and>
     (s \<noteq> 1 \<and> s \<noteq> 2 \<longrightarrow> main_mongolu MongoClient user password
                = Exit [''Critical - Replica NOK!'' @ ''|replica_health=1;;0;;''] 2)"
  by (simp add: main_mongolu_def report_instance_status_reply)

theorem replica_probe_run_witness:
  "main_mongolu (\<lambda>u p. sconst (Inr 1)) ''root'' ''pw''
     = Exit [''Ok - Replica Primary|replica_health=1;;0;;''] 0 \<and>
   main_mongolu (\<lambda>u p. sconst (Inr 0)) ''root'' ''pw''
     = Exit [''Critical - Replica NOK!|replica_health=1;;0;;''] 2"
  using replica_probe_run [of "\<lambda>u p. sconst (Inr 1)" "''root''" "''pw''" 1]
        replica_probe_run [of "\<lambda>u p. sconst (Inr 0)" "''root''" "''pw''" 0]
  by simp

section \<open>The cache probe: slices, checks and runs\<close>

text \<open>
  The two slices of \<open>get_human_memory_threshold_by_percentage\<close>: \<open>s[0:len(s)-1]\<close> is the
  text without its last character, and \<open>s[-1:len(s)]\<close> is the last character, or the
  empty text when there is none.
\<close>

lemma py_slice_Nil: "py_slice [] lo hi = []"
  by (simp add: py_slice_def)

lemma py_slice_prefix: "py_slice xs 0 (int (length xs) - 1) = butlast xs"
proof (cases xs rule: rev_cases)
  case Nil
  then show ?thesis by (simp add: py_slice_Nil)
next
  case (snoc ys y)
  then show ?thesis by (simp add: py_slice_def slice_index_def)
qed

lemma py_slice_last:
  "py_slice xs (- 1) (int (length xs)) = (if xs = [] then [] else [last xs])"
proof (cases xs rule: rev_cases)
  case Nil
  then show ?thesis by (simp add: py_slice_Nil)
next
  case (snoc ys y)
  then show ?thesis by (simp add: py_slice_def slice_index_def Let_def nat_add_distrib)
qed

lemma binary64_zero: "binary64 0 = 0"
  by (simp add: binary64_def)

lemma float_mul_zero: "float_mul 0 y = 0" "float_mul x 0 = 0"
  by (simp_all add: float_mul_def binary64_zero)


lemma human_threshold_eq:
  "get_human_memory_threshold_by_percentage py usage ci =
     (case float_of py (butlast (maxmemory_human ci)) of
        None \<Rightarrow> Inl ValueError
      | Some v \<Rightarrow>
          Inr (format_2f py (float_mul v usage) @
               (if maxmemory_human ci = [] then [] else [last (maxmemory_human ci)]) @ ''B''))"
  by (cases "maxmemory_human ci = []")
     (simp_all add: get_human_memory_threshold_by_percentage_def Let_def py_slice_prefix
        py_slice_last py_slice_Nil split: option.splits)

lemma check_memory_usage_eq:
  "check_memory_usage py ci usage =
     (case get_human_memory_threshold_by_percentage py usage ci of
        Inl ex \<Rightarrow> Inl ex
      | Inr a \<Rightarrow>
          Inr (of_int (used_memory ci) \<le> float_mul usage (float_of_int (maxmemory ci)), a))"
  by (simp add: check_memory_usage_def get_memory_threshold_by_percentage_def Let_def
      not_less split: sum.splits)

lemma check_latency_eq:
  "check_latency py h max_latency =
     (let fields = py_split CHR '' '' (shd (keydb_cli_latency h))
      in if length fields < 3 then Inl IndexError
         else (case float_of py (fields ! 2) of
                 None \<Rightarrow> Inl ValueError
               | Some v \<Rightarrow> Inr (v \<le> max_latency, v)))"
  by (simp add: check_latency_def run_keydb_latency_check_def py_index_def Let_def
      not_less split: option.splits)


lemma format_message_eq:
  "format_message py memory_healthy allowed latency_healthy max_latency ci latency =
     (if memory_healthy then [] else ''high'') @ '' memory usage: '' @
     used_memory_human ci @ ''B used of '' @ maxmemory_human ci @ ''B / '' @
     (if latency_healthy then [] else ''high'') @ '' average latency: '' @
     str_of py latency @ '' ms|used_memory='' @ used_memory_human ci @ ''B;;'' @
     allowed @ '';; average_latency='' @ str_of py latency @ '';;'' @
     str_of py max_latency @ '';;''"
  by (simp add: format_message_def Let_def)

lemma report_stats_telemetry:
  assumes "shd (redis_info h) = Inr ci"
    and "check_memory_usage py ci
           (threshold_or_default mm (ARGS MAX_PERCENTUAL_MEMORY_USAGE)) = Inr (mh, allowed)"
    and "check_latency py h (threshold_or_default ml (ARGS MAX_LATENCY_MS)) = Inr (lh, lat)"
  shows "report_stats py h ml mm =
           (if mh \<and> lh
            then Inr (format_message py mh allowed lh
                        (threshold_or_default ml (ARGS MAX_LATENCY_MS)) ci lat)
            else Inl (RedisError [format_message py mh allowed lh
                        (threshold_or_default ml (ARGS MAX_LATENCY_MS)) ci lat]))"
  using assms by (simp add: report_stats_def Let_def del: ARGS.simps)

lemma main_redis_telemetry:
  assumes "shd (redis_info h) = Inr ci"
    and "check_memory_usage py ci
           (threshold_or_default mm (ARGS MAX_PERCENTUAL_MEMORY_USAGE)) = Inr (mh, allowed)"
    and "check_latency py h (threshold_or_default ml (ARGS MAX_LATENCY_MS)) = Inr (lh, lat)"
  shows "main_redis py h ml mm =
           Exit [format_message py mh allowed lh
                   (threshold_or_default ml (ARGS MAX_LATENCY_MS)) ci lat]
                (if mh \<and> lh then 0 else 2)"
  by (simp add: main_redis_def report_stats_telemetry [OF assms] del: ARGS.simps)

lemma report_stats_info_error:
  "shd (redis_info h) = Inl ex \<Longrightarrow> report_stats py h ml mm = Inl ex"
  by (simp add: report_stats_def)

lemma report_stats_memory_error:
  "shd (redis_info h) = Inr ci \<Longrightarrow>
   check_memory_usage py ci
     (threshold_or_default mm (ARGS MAX_PERCENTUAL_MEMORY_USAGE)) = Inl ex \<Longrightarrow>
   report_stats py h ml mm = Inl ex"
  by (simp add: report_stats_def Let_def del: ARGS.simps)

lemma report_stats_latency_error:
  "shd (redis_info h) = Inr ci \<Longrightarrow>
   check_memory_usage py ci
     (threshold_or_default mm (ARGS MAX_PERCENTUAL_MEMORY_USAGE)) = Inr (mh, allowed) \<Longrightarrow>
   check_latency py h (threshold_or_default ml (ARGS MAX_LATENCY_MS)) = Inl ex \<Longrightarrow>
   report_stats py h ml mm = Inl ex"
  by (simp add: report_stats_def Let_def del: ARGS.simps)

lemma check_memory_usage_error:
  "check_memory_usage py ci usage = Inl ex \<longleftrightarrow>
     float_of py (butlast (maxmemory_human ci)) = None \<and> ex = ValueError"
  by (auto simp: check_memory_usage_eq human_threshold_eq split: option.splits)

lemma decimal_sel:
  "float_of decimal = decimal_float" "str_of decimal = decimal_str"
  "format_2f decimal = decimal_format_2f"
  by (simp_all add: decimal_def)

lemma scenario_host_sel:
  "shd (redis_info (scenario_host info out)) = Inr info"
  "shd (keydb_cli_latency (scenario_host info out)) = out"
  by (simp_all add: scenario_host_def)

lemma scenario_info_sel:
  "used_memory scenario_info = 6312427" "used_memory_human scenario_info = ''6.02M''"
  "maxmemory scenario_info = 3854732148" "maxmemory_human scenario_info = ''3.59G''"
  by (simp_all add: scenario_info_def)

lemma decimal_float_values:
  "decimal_float ''3.59'' = Some (359 / 100)"
  "decimal_float ''0.07'' = Some (7 / 100)"
  "decimal_float ''25.0'' = Some 25"
  "decimal_float ''2'' = Some 2"
  "decimal_float ''0'' = Some 0"
  "decimal_float ''180'' = Some 180"
  "decimal_float ''10'' = Some 10"
  "decimal_float [] = None"
  by code_simp+

lemma decimal_format_2f_values:
  "decimal_format_2f (float_mul (359 / 100) (19 / 20)) = ''3.41''"
  "decimal_format_2f (float_mul (359 / 100) (ARGS MAX_PERCENTUAL_MEMORY_USAGE)) = ''3.41''"
  "decimal_format_2f (float_mul (359 / 100) (1 / 2)) = ''1.79''"
  "decimal_format_2f (float_mul 180 (binary64 (7 / 10))) = ''126.00''"
  "decimal_format_2f (float_mul 10 (binary64 (7 / 10))) = ''7.00''"
  "decimal_format_2f 0 = ''0.00''"
  by code_simp+

lemma decimal_str_values:
  "decimal_str (7 / 100) = ''0.07''"
  "decimal_str 20 = ''20.0''"
  "decimal_str 25 = ''25.0''"
  "decimal_str 2 = ''2.0''"
  "decimal_str (1 / 16) = ''0.0625''"
  by code_simp+

lemma scenario_products:
  "(6312427 :: rat) \<le> float_mul (ARGS MAX_PERCENTUAL_MEMORY_USAGE) (float_of_int 3854732148)"
  "\<not> (3800000000 :: rat) \<le>
     float_mul (ARGS MAX_PERCENTUAL_MEMORY_USAGE) (float_of_int 3854732148)"
  "(6312427 :: rat) \<le> float_mul (1 / 2) (float_of_int 3854732148)"
  "\<not> (126 :: rat) \<le> float_mul (binary64 (7 / 10)) (float_of_int 180)"
  "(7 :: rat) \<le> float_mul (binary64 (7 / 10)) (float_of_int 10)"
  "binary64 (7 / 10) * 10 < 7"
  by code_simp+

lemma scenario_limit:
  "get_human_memory_threshold_by_percentage decimal (19 / 20) scenario_info = Inr ''3.41GB''"
  by (simp add: human_threshold_eq scenario_info_sel decimal_sel decimal_float_values
      decimal_format_2f_values)

lemma scenario_limit_default:
  "get_human_memory_threshold_by_percentage decimal (ARGS MAX_PERCENTUAL_MEMORY_USAGE)
     scenario_info = Inr ''3.41GB''"
  by (simp add: human_threshold_eq scenario_info_sel decimal_sel decimal_float_values
      decimal_format_2f_values)

lemma scenario_memory:
  "check_memory_usage decimal scenario_info (ARGS MAX_PERCENTUAL_MEMORY_USAGE) =
     Inr (True, ''3.41GB'')"
  by (simp add: check_memory_usage_eq scenario_limit_default scenario_info_sel
      scenario_products)

lemma scenario_latency_ok:
  "check_latency decimal (scenario_host info ''0 1 0.07 1523\<newline>'') 20 = Inr (True, 7 / 100)"
  by (simp add: check_latency_eq scenario_host_sel decimal_sel decimal_float_values)

lemma scenario_run_ok:
  "main_redis decimal (scenario_host scenario_info ''0 1 0.07 1523\<newline>'') None None =
     Exit ['' memory usage: 6.02MB used of 3.59GB /  average latency: 0.07 ms|used_memory=6.02MB;;3.41GB;; average_latency=0.07;;20.0;;''] 0"
  using main_redis_telemetry [of "scenario_host scenario_info ''0 1 0.07 1523\<newline>''"
      scenario_info decimal None True "''3.41GB''" None True "7 / 100"]
  by (simp add: scenario_host_sel threshold_or_default_def scenario_memory scenario_latency_ok
      format_message_eq scenario_info_sel decimal_sel decimal_str_values ARGS.simps(2))

section \<open>The cache probe: the claims\<close>




text \<open>
  C3. A threshold that is absent or zero is replaced by the default and every other
  threshold is kept as it is: \<open>None\<close> against 20 gives 20, 5 against 20 gives 5, and 0
  against 20 gives 20. \<open>report_stats\<close> resolves both of its thresholds so, the memory
  fraction against the default 0.95 and the latency against the default 20.0, and it
  is the resolved values that it works with: the memory check runs with the resolved
  fraction, the latency check with the resolved latency threshold, and the message
  shows the resolved latency threshold.
\<close>

theorem threshold_resolution:
  "threshold_or_default None d = d \<and>
   threshold_or_default (Some 0) d = d \<and>
   (x \<noteq> 0 \<longrightarrow> threshold_or_default (Some x) d = x) \<and>
   threshold_or_default None 20 = 20 \<and>
   threshold_or_default (Some 5) 20 = 5 \<and>
   threshold_or_default (Some 0) 20 = 20 \<and>
   ARGS MAX_PERCENTUAL_MEMORY_USAGE = binary64 (95 / 100) \<and>
   ARGS MAX_LATENCY_MS = 20 \<and>
   (shd (redis_info h) = Inr ci \<longrightarrow>
      report_stats py h max_latency max_memory_usage =
        (let usage = (case max_memory_usage of
                        None \<Rightarrow> binary64 (95 / 100)
                      | Some m \<Rightarrow> if m = 0 then binary64 (95 / 100) else m);
             limit = (case max_latency of
                        None \<Rightarrow> 20
                      | Some l \<Rightarrow> if l = 0 then 20 else l)
         in case check_memory_usage py ci usage of
              Inl ex \<Rightarrow> Inl ex
            | Inr (memory_healthy, allowed) \<Rightarrow>
                (case check_latency py h limit of
                   Inl ex \<Rightarrow> Inl ex
                 | Inr (latency_healthy, latency) \<Rightarrow>
                     if memory_healthy \<and> latency_healthy
                     then Inr (format_message py memory_healthy allowed latency_healthy
                                 limit ci latency)
                     else Inl (RedisError
                                 [format_message py memory_healthy allowed latency_healthy
                                    limit ci latency]))))"
proof -
  have "report_stats py h max_latency max_memory_usage =
        (let usage = (case max_memory_usage of
                        None \<Rightarrow> binary64 (95 / 100)
                      | Some m \<Rightarrow> if m = 0 then binary64 (95 / 100) else m);
             limit = (case max_latency of
                        None \<Rightarrow> 20
                      | Some l \<Rightarrow> if l = 0 then 20 else l)
         in case check_memory_usage py ci usage of
              Inl ex \<Rightarrow> Inl ex
            | Inr (memory_healthy, allowed) \<Rightarrow>
                (case check_latency py h limit of
                   Inl ex \<Rightarrow> Inl ex
                 | Inr (latency_healthy, latency) \<Rightarrow>
                     if memory_healthy \<and> latency_healthy
                     then Inr (format_message py memory_healthy allowed latency_healthy
                                 limit ci latency)
                     else Inl (RedisError
                                 [format_message py memory_healthy allowed latency_healthy
                                    limit ci latency])))"
    if "shd (redis_info h) = Inr ci"
    using that
    by (auto simp: report_stats_def threshold_or_default_def Let_def ARGS.simps
        split: sum.splits prod.splits option.splits)
  then show ?thesis
    by (simp add: threshold_or_default_def ARGS.simps)
qed

theorem threshold_resolution_witness:
  "report_stats decimal (scenario_host scenario_info ''0 1 0.07 1523\<newline>'')
     (Some (1 / 16)) (Some (1 / 2)) =
     Inl (RedisError ['' memory usage: 6.02MB used of 3.59GB / high average latency: 0.07 ms|used_memory=6.02MB;;1.79GB;; average_latency=0.07;;0.0625;;''])"
proof -
  note run = threshold_resolution [where h = "scenario_host scenario_info ''0 1 0.07 1523\<newline>''"
      and ci = scenario_info and py = decimal and max_latency = "Some (1 / 16)"
      and max_memory_usage = "Some (1 / 2)",
      THEN conjunct2, THEN conjunct2, THEN conjunct2, THEN conjunct2, THEN conjunct2,
      THEN conjunct2, THEN conjunct2, THEN conjunct2]
  have memory: "check_memory_usage decimal scenario_info (1 / 2) = Inr (True, ''1.79GB'')"
    by (simp add: check_memory_usage_eq human_threshold_eq scenario_info_sel decimal_sel
        decimal_float_values decimal_format_2f_values scenario_products)
  have latency: "check_latency decimal
      (scenario_host scenario_info ''0 1 0.07 1523\<newline>'') (1 / 16) = Inr (False, 7 / 100)"
    by (simp add: check_latency_eq scenario_host_sel decimal_sel decimal_float_values)
  show ?thesis
    using run
    by (simp add: scenario_host_sel memory latency format_message_eq scenario_info_sel
        decimal_sel decimal_str_values)
qed

text \<open>
  C4, as amended. For a human-readable maximum that is a number followed by one unit
  character, the human-readable limit is the number, read as a float, times the memory
  fraction, a product of floats, written with two decimals, followed by the same unit
  character and a literal B; for 3.59G and the fraction 0.95 it is 3.41GB. The unit of the limit is
  therefore the unit of the human-readable maximum it was computed from.
\<close>

theorem human_limit:
  "(maxmemory_human ci = number @ [unit] \<and> float_of py number = Some v \<longrightarrow>
      get_human_memory_threshold_by_percentage py usage ci =
        Inr (format_2f py (float_mul v usage) @ [unit] @ ''B'')) \<and>
   get_human_memory_threshold_by_percentage decimal (95 / 100)
     (ci\<lparr>maxmemory_human := ''3.59G''\<rparr>) = Inr ''3.41GB''"
  by (simp add: human_threshold_eq decimal_sel decimal_float_values decimal_format_2f_values)

theorem human_limit_witness:
  "get_human_memory_threshold_by_percentage decimal (95 / 100)
     \<lparr>used_memory = 5, used_memory_human = ''5B'', maxmemory = 0, maxmemory_human = ''0B''\<rparr>
     = Inr ''0.00BB''"
  using human_limit [of
      "\<lparr>used_memory = 5, used_memory_human = ''5B'', maxmemory = 0, maxmemory_human = ''0B''\<rparr>"
      "''0''" "CHR ''B''" decimal 0 "95 / 100"]
  by (simp add: decimal_sel decimal_float_values decimal_format_2f_values float_mul_zero)

text \<open>
  C4 as stated also asks that the unit suffix of the limit be that of the measured
  human-readable value. In the scenario the measured value is printed as 6.02MB and the
  limit as 3.41GB: the suffixes differ.
\<close>

theorem human_limit_unit_counterexample:
  "get_human_memory_threshold_by_percentage decimal (95 / 100) scenario_info = Inr ''3.41GB'' \<and>
   spec_unit_suffix ''3.41GB'' = ''GB'' \<and>
   spec_unit_suffix (used_memory_human scenario_info @ ''B'') = ''MB''"
  by (simp add: scenario_limit scenario_info_sel spec_unit_suffix_def digit_of_char_def)

text \<open>
  C6. The message is the marker of the memory check, \<open>memory usage:\<close>, the used and the
  maximal memory with a B appended, the marker of the latency check, \<open>average latency:\<close>
  and the latency, then after the bar the performance data with the allowed limit and
  the latency threshold. A marker is the word high for an unhealthy check and empty for
  a healthy one, which leaves a space at the head of the line and two spaces in a row
  before \<open>average latency\<close>. In the scenario, with a latency of 0.07 and the default
  thresholds, the run prints the line of the specification.
\<close>

theorem cache_message_format:
  "format_message py memory_healthy allowed latency_healthy max_latency ci latency =
     (if memory_healthy then [] else ''high'') @ '' memory usage: '' @
     used_memory_human ci @ ''B used of '' @ maxmemory_human ci @ ''B / '' @
     (if latency_healthy then [] else ''high'') @ '' average latency: '' @
     str_of py latency @ '' ms|used_memory='' @ used_memory_human ci @ ''B;;'' @
     allowed @ '';; average_latency='' @ str_of py latency @ '';;'' @
     str_of py max_latency @ '';;'' \<and>
   main_redis decimal (scenario_host scenario_info ''0 1 0.07 1523\<newline>'') None None =
     Exit ['' memory usage: 6.02MB used of 3.59GB /  average latency: 0.07 ms|used_memory=6.02MB;;3.41GB;; average_latency=0.07;;20.0;;''] 0"
  by (simp add: format_message_eq scenario_run_ok)

theorem cache_message_format_witness:
  "format_message decimal False ''3.41GB'' False 20 scenario_info 25 =
     ''high memory usage: 6.02MB used of 3.59GB / high average latency: 25.0 ms|used_memory=6.02MB;;3.41GB;; average_latency=25.0;;20.0;;''"
  using cache_message_format [of decimal False "''3.41GB''" False 20 scenario_info 25]
  by (simp add: scenario_info_sel decimal_sel decimal_str_values)


lemma main_mongolu_reply:
  "main_mongolu MongoClient user password =
     (case shd (MongoClient user password) of
        Inr s \<Rightarrow>
          if s = 1 then Exit [''Ok - Replica Primary|replica_health=1;;0;;''] 0
          else if s = 2 then Exit [''Ok - Replica Secondary|replica_health=1;;0;;''] 0
          else Exit [''Critical - Replica NOK!|replica_health=1;;0;;''] 2
      | Inl ex \<Rightarrow>
          (case ex of
             ServerSelectionTimeoutError args \<Rightarrow> Exit [print_args args] 2
           | OperationFailure args \<Rightarrow> Exit [print_args args] 2
           | ReplicaUnhealthy args \<Rightarrow> Exit [print_args args] 2
           | _ \<Rightarrow> Uncaught ex))"
  by (simp add: main_mongolu_def report_instance_status_reply split: sum.splits exn.splits)

lemma main_mongolu_ok_iff:
  "(\<exists>out. main_mongolu MongoClient user password = Exit out 0) \<longleftrightarrow>
     (\<exists>s. shd (MongoClient user password) = Inr s \<and> (s = 1 \<or> s = 2))"
  by (auto simp: main_mongolu_reply split: sum.splits exn.splits)

lemma check_latency_first_run:
  "shd (keydb_cli_latency h) = shd (keydb_cli_latency h') \<Longrightarrow>
   check_latency py h max_latency = check_latency py h' max_latency"
  by (simp add: check_latency_eq)

lemma report_stats_first_reply:
  "shd (redis_info h) = shd (redis_info h') \<Longrightarrow>
   shd (keydb_cli_latency h) = shd (keydb_cli_latency h') \<Longrightarrow>
   report_stats py h ml mm = report_stats py h' ml mm"
  using check_latency_first_run [of h h' py]
  by (simp add: report_stats_def Let_def split: sum.splits prod.splits)

lemma main_redis_ok_iff:
  "(\<exists>out. main_redis py h ml mm = Exit out 0) \<longleftrightarrow>
     (\<exists>ci allowed lat.
        shd (redis_info h) = Inr ci \<and>
        check_memory_usage py ci
          (threshold_or_default mm (ARGS MAX_PERCENTUAL_MEMORY_USAGE)) = Inr (True, allowed) \<and>
        check_latency py h (threshold_or_default ml (ARGS MAX_LATENCY_MS)) = Inr (True, lat))"
  by (auto simp: main_redis_def report_stats_def Let_def
      simp del: ARGS.simps split: sum.splits exn.splits prod.splits if_splits)

lemma main_redis_error:
  "report_stats py h ml mm = Inl (RedisError args) \<Longrightarrow>
   main_redis py h ml mm = Exit [print_args args] 2"
  by (simp add: main_redis_def)

text \<open>
  C8. Either probe exits with 0 exactly when every check was evaluated and found
  healthy, and it then prints the message of the report. A connection timeout or an
  operation failure of the database driver, a \<open>RedisError\<close> of the cache client and an
  unhealthy verdict all end in the same way: the text of the error is printed and the
  exit code is 2. Nothing is tried again: the outcome depends on the first answer of
  each collaborator only.
\<close>

theorem probe_exit_status:
  "((\<exists>out. main_mongolu MongoClient user password = Exit out 0) \<longleftrightarrow>
      (\<exists>s. shd (MongoClient user password) = Inr s \<and> (s = 1 \<or> s = 2))) \<and>
   (report_instance_status MongoClient user password = Inr message \<longrightarrow>
      main_mongolu MongoClient user password = Exit [message] 0) \<and>
   (shd (MongoClient user password) = Inl (ServerSelectionTimeoutError args) \<longrightarrow>
      main_mongolu MongoClient user password = Exit [print_args args] 2) \<and>
   (shd (MongoClient user password) = Inl (OperationFailure args) \<longrightarrow>
      main_mongolu MongoClient user password = Exit [print_args args] 2) \<and>
   (report_instance_status MongoClient user password = Inl (ReplicaUnhealthy [message]) \<longrightarrow>
      main_mongolu MongoClient user password = Exit [message] 2) \<and>
   (shd (MongoClient user password) = shd (MongoClient' user password) \<longrightarrow>
      main_mongolu MongoClient user password = main_mongolu MongoClient' user password) \<and>
   ((\<exists>out. main_redis py h ml mm = Exit out 0) \<longleftrightarrow>
      (\<exists>ci allowed lat.
         shd (redis_info h) = Inr ci \<and>
         check_memory_usage py ci
           (threshold_or_default mm (ARGS MAX_PERCENTUAL_MEMORY_USAGE)) = Inr (True, allowed) \<and>
         check_latency py h (threshold_or_default ml (ARGS MAX_LATENCY_MS)) = Inr (True, lat))) \<and>
   (report_stats py h ml mm = Inr message \<longrightarrow> main_redis py h ml mm = Exit [message] 0) \<and>
   (shd (redis_info h) = Inl (RedisError args) \<longrightarrow>
      main_redis py h ml mm = Exit [print_args args] 2) \<and>
   (shd (redis_info h) = Inr ci \<and>
    check_memory_usage py ci
      (threshold_or_default mm (ARGS MAX_PERCENTUAL_MEMORY_USAGE)) = Inr (mh, allowed) \<and>
    check_latency py h (threshold_or_default ml (ARGS MAX_LATENCY_MS)) = Inr (lh, lat) \<and>
    \<not> (mh \<and> lh) \<longrightarrow>
      (\<exists>text. report_stats py h ml mm = Inl (RedisError [text]) \<and>
              main_redis py h ml mm = Exit [text] 2)) \<and>
   (shd (redis_info h) = shd (redis_info h') \<and>
    shd (keydb_cli_latency h) = shd (keydb_cli_latency h') \<longrightarrow>
      main_redis py h ml mm = main_redis py h' ml mm)"
proof -
  have mongo_ok: "report_instance_status MongoClient user password = Inr message \<longrightarrow>
      main_mongolu MongoClient user password = Exit [message] 0"
    by (simp add: main_mongolu_def)
  have mongo_timeout: "shd (MongoClient user password) = Inl (ServerSelectionTimeoutError args) \<longrightarrow>
      main_mongolu MongoClient user password = Exit [print_args args] 2"
    by (simp add: main_mongolu_reply)
  have mongo_failure: "shd (MongoClient user password) = Inl (OperationFailure args) \<longrightarrow>
      main_mongolu MongoClient user password = Exit [print_args args] 2"
    by (simp add: main_mongolu_reply)
  have mongo_unhealthy:
    "report_instance_status MongoClient user password = Inl (ReplicaUnhealthy [message]) \<longrightarrow>
      main_mongolu MongoClient user password = Exit [message] 2"
    by (simp add: main_mongolu_def)
  have mongo_once: "shd (MongoClient user password) = shd (MongoClient' user password) \<longrightarrow>
      main_mongolu MongoClient user password = main_mongolu MongoClient' user password"
    by (simp add: main_mongolu_reply)
  have redis_ok: "report_stats py h ml mm = Inr message \<longrightarrow>
      main_redis py h ml mm = Exit [message] 0"
    by (simp add: main_redis_def)
  have redis_error: "shd (redis_info h) = Inl (RedisError args) \<longrightarrow>
      main_redis py h ml mm = Exit [print_args args] 2"
    by (simp add: main_redis_error report_stats_info_error)
  have redis_unhealthy: "shd (redis_info h) = Inr ci \<and>
    check_memory_usage py ci
      (threshold_or_default mm (ARGS MAX_PERCENTUAL_MEMORY_USAGE)) = Inr (mh, allowed) \<and>
    check_latency py h (threshold_or_default ml (ARGS MAX_LATENCY_MS)) = Inr (lh, lat) \<and>
    \<not> (mh \<and> lh) \<longrightarrow>
      (\<exists>text. report_stats py h ml mm = Inl (RedisError [text]) \<and>
              main_redis py h ml mm = Exit [text] 2)"
    using report_stats_telemetry [of h ci py mm mh allowed ml lh lat]
      main_redis_telemetry [of h ci py mm mh allowed ml lh lat]
    by auto
  have redis_once: "shd (redis_info h) = shd (redis_info h') \<and>
    shd (keydb_cli_latency h) = shd (keydb_cli_latency h') \<longrightarrow>
      main_redis py h ml mm = main_redis py h' ml mm"
    by (simp add: main_redis_def report_stats_first_reply [of h h'])
  show ?thesis
    using main_mongolu_ok_iff [of MongoClient user password] mongo_ok mongo_timeout
      mongo_failure mongo_unhealthy mongo_once main_redis_ok_iff [of py h ml mm]
      redis_ok redis_error redis_unhealthy redis_once
    by blast
qed


theorem probe_exit_status_witness:
  "main_mongolu (\<lambda>u p. sconst (Inl (OperationFailure [''Authentication failed.''])))
     ''root'' ''pw'' = Exit [''Authentication failed.''] 2 \<and>
   main_redis decimal
     \<lparr>redis_info = sconst (Inl (RedisError [''Connection refused.''])),
      keydb_cli_latency = sconst []\<rparr> None None = Exit [''Connection refused.''] 2"
proof -
  note mongo = probe_exit_status [where MongoClient =
        "\<lambda>u p. sconst (Inl (OperationFailure [''Authentication failed.'']))"
      and user = "''root''" and password = "''pw''" and args = "[''Authentication failed.'']",
      THEN conjunct2, THEN conjunct2, THEN conjunct2, THEN conjunct1]
  note redis = probe_exit_status [where py = decimal
      and h = "\<lparr>redis_info = sconst (Inl (RedisError [''Connection refused.''])),
                 keydb_cli_latency = sconst []\<rparr>"
      and ml = None and mm = None and args = "[''Connection refused.'']",
      THEN conjunct2, THEN conjunct2, THEN conjunct2, THEN conjunct2, THEN conjunct2,
      THEN conjunct2, THEN conjunct2, THEN conjunct2, THEN conjunct1]
  have "main_mongolu (\<lambda>u p. sconst (Inl (OperationFailure [''Authentication failed.''])))
     ''root'' ''pw'' = Exit [''Authentication failed.''] 2"
    using mongo by simp
  moreover have "main_redis decimal
     \<lparr>redis_info = sconst (Inl (RedisError [''Connection refused.''])),
      keydb_cli_latency = sconst []\<rparr> None None = Exit [''Connection refused.''] 2"
    using redis by simp
  ultimately show ?thesis by (rule conjI)
qed




text \<open>
  C9. When the dictionary was obtained and both checks returned a verdict, the line on
  stdout is the whole formatted message for the measured values, whatever the verdicts
  are. On an unhealthy verdict the \<open>RedisError\<close> carries exactly that message and the
  exit code is 2. The messages of a healthy and of an unhealthy run on the same
  measurements differ in the two markers only.
\<close>

theorem cache_probe_stdout:
  "shd (redis_info h) = Inr ci \<Longrightarrow>
   check_memory_usage py ci
     (threshold_or_default mm (ARGS MAX_PERCENTUAL_MEMORY_USAGE)) = Inr (mh, allowed) \<Longrightarrow>
   check_latency py h (threshold_or_default ml (ARGS MAX_LATENCY_MS)) = Inr (lh, lat) \<Longrightarrow>
     main_redis py h ml mm =
       Exit [format_message py mh allowed lh
               (threshold_or_default ml (ARGS MAX_LATENCY_MS)) ci lat]
            (if mh \<and> lh then 0 else 2) \<and>
     (\<not> (mh \<and> lh) \<longrightarrow>
        report_stats py h ml mm =
          Inl (RedisError [format_message py mh allowed lh
                 (threshold_or_default ml (ARGS MAX_LATENCY_MS)) ci lat])) \<and>
     (\<exists>middle rest. \<forall>m l.
        format_message py m allowed l (threshold_or_default ml (ARGS MAX_LATENCY_MS)) ci lat =
          (if m then [] else ''high'') @ middle @ (if l then [] else ''high'') @ rest)"
proof -
  assume info: "shd (redis_info h) = Inr ci"
    and memory: "check_memory_usage py ci
      (threshold_or_default mm (ARGS MAX_PERCENTUAL_MEMORY_USAGE)) = Inr (mh, allowed)"
    and latency: "check_latency py h (threshold_or_default ml (ARGS MAX_LATENCY_MS)) =
      Inr (lh, lat)"
  have shape: "\<exists>middle rest. \<forall>m l.
        format_message py m allowed l (threshold_or_default ml (ARGS MAX_LATENCY_MS)) ci lat =
          (if m then [] else ''high'') @ middle @ (if l then [] else ''high'') @ rest"
    by (rule exI [of _ "'' memory usage: '' @ used_memory_human ci @ ''B used of '' @
          maxmemory_human ci @ ''B / ''"],
        rule exI [of _ "'' average latency: '' @ str_of py lat @ '' ms|used_memory='' @
          used_memory_human ci @ ''B;;'' @ allowed @ '';; average_latency='' @
          str_of py lat @ '';;'' @
          str_of py (threshold_or_default ml (ARGS MAX_LATENCY_MS)) @ '';;''"])
       (simp add: format_message_eq del: ARGS.simps)
  show ?thesis
    using main_redis_telemetry [OF info memory latency]
      report_stats_telemetry [OF info memory latency] shape
    by simp
qed

theorem cache_probe_stdout_witness:
  "main_redis decimal
     (scenario_host (scenario_info\<lparr>used_memory := 3800000000, used_memory_human := ''3.54G''\<rparr>)
        ''0 1 0.07 1523\<newline>'') None None =
     Exit [''high memory usage: 3.54GB used of 3.59GB /  average latency: 0.07 ms|used_memory=3.54GB;;3.41GB;; average_latency=0.07;;20.0;;''] 2"
proof -
  let ?ci = "scenario_info\<lparr>used_memory := 3800000000, used_memory_human := ''3.54G''\<rparr>"
  let ?h = "scenario_host ?ci ''0 1 0.07 1523\<newline>''"
  have info: "shd (redis_info ?h) = Inr ?ci"
    by (simp add: scenario_host_sel)
  have memory: "check_memory_usage decimal ?ci
      (threshold_or_default None (ARGS MAX_PERCENTUAL_MEMORY_USAGE)) = Inr (False, ''3.41GB'')"
    by (simp add: check_memory_usage_eq human_threshold_eq scenario_info_def decimal_sel
        decimal_float_values decimal_format_2f_values threshold_or_default_def
        scenario_products)
  have latency: "check_latency decimal ?h (threshold_or_default None (ARGS MAX_LATENCY_MS)) =
      Inr (True, 7 / 100)"
    by (simp add: scenario_latency_ok threshold_or_default_def ARGS.simps(2))
  show ?thesis
    using cache_probe_stdout [OF info memory latency]
    by (simp add: format_message_eq scenario_info_def decimal_sel decimal_str_values
        threshold_or_default_def ARGS.simps(2))
qed

text \<open>
  C10, as amended. \<open>main\<close> of the cache probe handles \<open>RedisError\<close> only. When the
  human-readable maximum without its last character does not read as a float, the run
  ends in an uncaught \<open>ValueError\<close>; a bare 0 is such a maximum. When it does read as a
  float and the output of the latency tool, cut at every single space, has fewer than
  three fields, the run ends in an uncaught \<open>IndexError\<close>. In both cases nothing is
  printed on stdout and the exit code is not 2.
\<close>

theorem uncaught_exceptions:
  "shd (redis_info h) = Inr ci \<Longrightarrow>
     (float_of py (butlast (maxmemory_human ci)) = None \<longrightarrow>
        main_redis py h ml mm = Uncaught ValueError) \<and>
     (float_of py (butlast (maxmemory_human ci)) \<noteq> None \<and>
      length (py_split CHR '' '' (shd (keydb_cli_latency h))) < 3 \<longrightarrow>
        main_redis py h ml mm = Uncaught IndexError) \<and>
     main_redis decimal
       (scenario_host (scenario_info\<lparr>maxmemory_human := ''0''\<rparr>) ''0 1 0.07 1523\<newline>'')
       None None = Uncaught ValueError \<and>
     main_redis decimal (scenario_host scenario_info ''0 1'') None None = Uncaught IndexError"
proof -
  assume info: "shd (redis_info h) = Inr ci"
  have value_error: "main_redis py h ml mm = Uncaught ValueError"
    if "float_of py (butlast (maxmemory_human ci)) = None"
  proof -
    have "check_memory_usage py ci
        (threshold_or_default mm (ARGS MAX_PERCENTUAL_MEMORY_USAGE)) = Inl ValueError"
      using that by (simp add: check_memory_usage_error)
    then show ?thesis
      using info by (simp add: main_redis_def report_stats_memory_error)
  qed
  have index_error: "main_redis py h ml mm = Uncaught IndexError"
    if "float_of py (butlast (maxmemory_human ci)) \<noteq> None"
      and "length (py_split CHR '' '' (shd (keydb_cli_latency h))) < 3"
  proof -
    from that(1) obtain v where "float_of py (butlast (maxmemory_human ci)) = Some v"
      by auto
    then have "\<exists>mh allowed. check_memory_usage py ci
        (threshold_or_default mm (ARGS MAX_PERCENTUAL_MEMORY_USAGE)) = Inr (mh, allowed)"
      by (simp add: check_memory_usage_eq human_threshold_eq del: ARGS.simps)
    then obtain mh allowed where "check_memory_usage py ci
        (threshold_or_default mm (ARGS MAX_PERCENTUAL_MEMORY_USAGE)) = Inr (mh, allowed)"
      by blast
    moreover have "check_latency py h (threshold_or_default ml (ARGS MAX_LATENCY_MS)) =
        Inl IndexError"
      using that(2) by (simp add: check_latency_eq Let_def)
    ultimately show ?thesis
      using info by (simp add: main_redis_def report_stats_latency_error)
  qed
  have example_value: "main_redis decimal
       (scenario_host (scenario_info\<lparr>maxmemory_human := ''0''\<rparr>) ''0 1 0.07 1523\<newline>'')
       None None = Uncaught ValueError"
    by (simp add: main_redis_def report_stats_def scenario_host_sel check_memory_usage_eq
        human_threshold_eq decimal_sel decimal_float_values)
  have example_index:
    "main_redis decimal (scenario_host scenario_info ''0 1'') None None = Uncaught IndexError"
    by (simp add: main_redis_def report_stats_def scenario_host_sel threshold_or_default_def ARGS.simps(2)
        scenario_memory check_latency_eq)
  show ?thesis
    using value_error index_error example_value example_index by blast
qed

theorem uncaught_exceptions_witness:
  "main_redis decimal
     (scenario_host (scenario_info\<lparr>maxmemory_human := ''G''\<rparr>) ''0 1 0.07 1523\<newline>'')
     None (Some (1 / 2)) = Uncaught ValueError \<and>
   main_redis decimal (scenario_host scenario_info ''0.07'') None None = Uncaught IndexError"
  using uncaught_exceptions [of
      "scenario_host (scenario_info\<lparr>maxmemory_human := ''G''\<rparr>) ''0 1 0.07 1523\<newline>''"
      "scenario_info\<lparr>maxmemory_human := ''G''\<rparr>" decimal None "Some (1 / 2)"]
    uncaught_exceptions [of "scenario_host scenario_info ''0.07''" scenario_info decimal
      None None]
  by (simp add: scenario_host_sel scenario_info_sel decimal_sel decimal_float_values)

text \<open>
  C10 as stated counts white-space-delimited tokens. The output \<open>1\<close>, two spaces, \<open>2\<close>
  has two tokens, yet the code finds three fields, reads the latency 2.0 and the run
  succeeds.
\<close>

theorem uncaught_index_counterexample:
  "spec_whitespace_tokens ''1  2'' = [''1'', ''2''] \<and>
   main_redis decimal (scenario_host scenario_info ''1  2'') None None =
     Exit ['' memory usage: 6.02MB used of 3.59GB /  average latency: 2.0 ms|used_memory=6.02MB;;3.41GB;; average_latency=2.0;;20.0;;''] 0"
proof -
  have latency: "check_latency decimal (scenario_host scenario_info ''1  2'')
      (threshold_or_default None (ARGS MAX_LATENCY_MS)) = Inr (True, 2)"
    by (simp add: check_latency_eq scenario_host_sel decimal_sel decimal_float_values
        threshold_or_default_def ARGS.simps(2))
  have memory: "check_memory_usage decimal scenario_info
      (threshold_or_default None (ARGS MAX_PERCENTUAL_MEMORY_USAGE)) = Inr (True, ''3.41GB'')"
    by (simp add: scenario_memory threshold_or_default_def ARGS.simps(2))
  have "main_redis decimal (scenario_host scenario_info ''1  2'') None None =
     Exit ['' memory usage: 6.02MB used of 3.59GB /  average latency: 2.0 ms|used_memory=6.02MB;;3.41GB;; average_latency=2.0;;20.0;;''] 0"
    using main_redis_telemetry [OF scenario_host_sel(1) memory latency]
    by (simp add: format_message_eq scenario_info_sel decimal_sel decimal_str_values
        threshold_or_default_def ARGS.simps(2))
  then show ?thesis
    by (simp add: is_space_def)
qed

end
